theory Spec2Isabelle
  imports Complex_Main
begin

section \<open>Tensors, layers and the framework's shape rules\<close>

text \<open>
  The notebook \<^verbatim>\<open>DCGAN-Generator-Discriminator-Starter.ipynb\<close> defines four
  modules, \<^verbatim>\<open>ConvBlock\<close>, \<^verbatim>\<open>Discriminator\<close>, \<^verbatim>\<open>DeconvBlock\<close> and
  \<^verbatim>\<open>Generator\<close>, by composing layers of the numerical framework. A tensor is
  modelled by its shape and its elements, read by their flat (row-major) index. Sizes
  (channels, kernel size, stride, padding, features) are natural numbers: the framework
  refuses a negative size when the layer is constructed.

  The elements are 32-bit floating-point values: a finite element is modelled by the real
  number it denotes, and next to the finite elements there are the two infinities and NaN,
  which the framework's arithmetic produces on overflow and propagates without raising.
\<close>

datatype scalar = Finite real | PosInf | NegInf | NaN

fun is_nan :: "scalar \<Rightarrow> bool" where
  "is_nan NaN = True"
| "is_nan v = False"

text \<open>\<open>in_range lo hi v\<close>: \<open>v\<close> is a number of the closed interval \<open>[lo, hi]\<close>.\<close>

fun in_range :: "real \<Rightarrow> real \<Rightarrow> scalar \<Rightarrow> bool" where
  "in_range lo hi (Finite r) = (lo \<le> r \<and> r \<le> hi)"
| "in_range lo hi v = False"

record tensor =
  shape :: "nat list"
  elems :: "nat \<Rightarrow> scalar"

definition numel :: "tensor \<Rightarrow> nat" where
  "numel x = prod_list (shape x)"

text \<open>
  The framework layers the notebook uses, with the arguments the framework stores for
  them: \<open>Conv2d in out kernel stride padding\<close>,
  \<open>ConvTranspose2d in out kernel stride padding\<close>, \<open>BatchNorm2d features\<close>,
  \<open>BatchNorm1d features\<close>, \<open>Linear in out\<close>. \<open>LeakyReLU\<close> has the default
  negative slope 0.01; its \<^verbatim>\<open>inplace\<close> flag changes neither shape nor values.
\<close>

datatype layer =
    Conv2d nat nat nat nat nat
  | ConvTranspose2d nat nat nat nat nat
  | BatchNorm2d nat
  | BatchNorm1d nat
  | LeakyReLU
  | Tanh
  | Sigmoid
  | Flatten
  | Linear nat nat

text \<open>
  What a forward pass can raise: a layer refusing the shape of its input (the framework's
  \<^verbatim>\<open>RuntimeError\<close>, or \<^verbatim>\<open>ValueError\<close>/\<^verbatim>\<open>IndexError\<close> for a wrong number
  of dimensions), a normalisation layer in training mode refusing a single value per
  channel, \<^verbatim>\<open>Tensor.size\<close> asked for a dimension the tensor lacks, and
  \<^verbatim>\<open>Tensor.view\<close> asked for a shape with another number of elements. Each error
  carries the layer (or the requested shape) and the shape of the offending tensor.
\<close>

datatype error =
    ShapeMismatch layer "nat list"
  | SingleValuePerChannel layer "nat list"
  | SizeOutOfRange "nat list" nat
  | ViewInvalid "nat list" "nat list"

text \<open>
  The parameters of the affine layers (convolution, transpose convolution, linear,
  normalisation) are drawn at random by the framework when the layer is constructed, so
  the values these layers compute are a parameter of the model: \<open>w l x i\<close> is the
  element at flat index \<open>i\<close> of the output of layer \<open>l\<close> on input \<open>x\<close>. It may
  be any floating-point value, an infinity or NaN included.
\<close>

type_synonym weights = "layer \<Rightarrow> tensor \<Rightarrow> nat \<Rightarrow> scalar"

text \<open>Defaults of the framework's \<^verbatim>\<open>Conv2d\<close>: \<^verbatim>\<open>stride=1, padding=0\<close>.\<close>

definition default_stride :: nat where
  "default_stride = 1"

definition default_padding :: nat where
  "default_padding = 0"

text \<open>
  Output extent of a convolution along one spatial axis (dilation 1):
  \<open>\<lfloor>(h + 2p - k) / s\<rfloor> + 1\<close>; the kernel may not exceed the padded input.
\<close>

definition conv_out :: "nat \<Rightarrow> nat \<Rightarrow> nat \<Rightarrow> nat \<Rightarrow> nat option" where
  "conv_out h k s p =
     (if k = 0 \<or> s = 0 \<or> h + 2 * p < k then None
      else Some ((h + 2 * p - k) div s + 1))"

text \<open>
  Output extent of a transpose convolution along one spatial axis (dilation 1, no output
  padding): \<open>(h - 1) s - 2p + k\<close>, which has to be positive.
\<close>

definition deconv_out :: "nat \<Rightarrow> nat \<Rightarrow> nat \<Rightarrow> nat \<Rightarrow> nat option" where
  "deconv_out h k s p =
     (if h = 0 \<or> k = 0 \<or> s = 0 \<or> (h - 1) * s + k \<le> 2 * p then None
      else Some ((h - 1) * s + k - 2 * p))"

fun spatial :: "(nat \<Rightarrow> nat option) \<Rightarrow> nat list \<Rightarrow> nat list \<Rightarrow> nat list option" where
  "spatial f pre [h, w] =
     (case f h of None \<Rightarrow> None
      | Some h' \<Rightarrow> (case f w of None \<Rightarrow> None | Some w' \<Rightarrow> Some (pre @ [h', w'])))"
| "spatial f pre hw = None"

text \<open>
  Shape of the output of a two-dimensional (transpose) convolution with extent rule
  \<open>f\<close>: the input is \<open>(N, C, H, W)\<close>, or \<open>(C, H, W)\<close> without batch dimension, and
  \<open>C\<close> has to be the layer's \<open>in_channels\<close>.
\<close>

fun conv_shape :: "(nat \<Rightarrow> nat option) \<Rightarrow> nat \<Rightarrow> nat \<Rightarrow> nat list \<Rightarrow> nat list option" where
  "conv_shape f cin cout [n, c, h, w] = (if c = cin then spatial f [n, cout] [h, w] else None)"
| "conv_shape f cin cout [c, h, w] = (if c = cin then spatial f [cout] [h, w] else None)"
| "conv_shape f cin cout s = None"

text \<open>
  The number of values per channel that a normalisation layer sees: the batch size times
  the extents after the channel dimension.
\<close>

definition size_prods :: "nat list \<Rightarrow> nat" where
  "size_prods s = hd s * prod_list (drop 2 s)"

text \<open>
  A normalisation layer over \<open>c\<close> features on an input whose number of dimensions is one
  of \<open>ranks\<close>: the number of dimensions is checked first, then (in training mode) that
  there is more than one value per channel, then the channel count.
\<close>

definition batch_norm_shape ::
  "bool \<Rightarrow> layer \<Rightarrow> nat \<Rightarrow> nat list \<Rightarrow> nat list \<Rightarrow> error + nat list" where
  "batch_norm_shape training l c ranks s =
     (if length s \<in> set ranks then
        (if training \<and> size_prods s = 1 then Inl (SingleValuePerChannel l s)
         else if s ! 1 = c then Inr s
         else Inl (ShapeMismatch l s))
      else Inl (ShapeMismatch l s))"

text \<open>\<^verbatim>\<open>Linear(in, out)\<close> acts on the last dimension, which has to be \<open>in\<close>.\<close>

definition linear_shape :: "nat \<Rightarrow> nat \<Rightarrow> nat list \<Rightarrow> nat list option" where
  "linear_shape fin fout s =
     (if s = [] then None
      else if last s = fin then Some (butlast s @ [fout])
      else None)"

text \<open>\<^verbatim>\<open>Flatten()\<close> (\<^verbatim>\<open>start_dim=1, end_dim=-1\<close>) keeps the first dimension.\<close>

definition flatten_shape :: "nat list \<Rightarrow> nat list option" where
  "flatten_shape s = (if length s < 2 then None else Some [hd s, prod_list (tl s)])"

text \<open>
  The activations on one element. On a number they are the functions of the same name; an
  infinity goes to the limit of the function there, and NaN goes to NaN.
\<close>

fun leaky_relu :: "scalar \<Rightarrow> scalar" where
  "leaky_relu (Finite v) = Finite (if 0 \<le> v then v else v / 100)"
| "leaky_relu PosInf = PosInf"
| "leaky_relu NegInf = NegInf"
| "leaky_relu NaN = NaN"

fun tanh_scalar :: "scalar \<Rightarrow> scalar" where
  "tanh_scalar (Finite v) = Finite (tanh v)"
| "tanh_scalar PosInf = Finite 1"
| "tanh_scalar NegInf = Finite (- 1)"
| "tanh_scalar NaN = NaN"

definition logistic :: "real \<Rightarrow> real" where
  "logistic v = 1 / (1 + exp (- v))"

fun sigmoid :: "scalar \<Rightarrow> scalar" where
  "sigmoid (Finite v) = Finite (logistic v)"
| "sigmoid PosInf = Finite 1"
| "sigmoid NegInf = Finite 0"
| "sigmoid NaN = NaN"

definition of_option :: "layer \<Rightarrow> nat list \<Rightarrow> nat list option \<Rightarrow> error + nat list" where
  "of_option l s r = (case r of None \<Rightarrow> Inl (ShapeMismatch l s) | Some s' \<Rightarrow> Inr s')"

text \<open>
  The forward pass of one framework layer, on shapes: the shape of the output, or the
  error the layer raises. \<open>training\<close> is the module's mode (\<^verbatim>\<open>True\<close> after
  construction, \<^verbatim>\<open>False\<close> after \<^verbatim>\<open>eval()\<close>).
\<close>

fun layer_shape :: "bool \<Rightarrow> layer \<Rightarrow> nat list \<Rightarrow> error + nat list" where
  "layer_shape training (Conv2d cin cout k s p) sh =
     of_option (Conv2d cin cout k s p) sh (conv_shape (\<lambda>h. conv_out h k s p) cin cout sh)"
| "layer_shape training (ConvTranspose2d cin cout k s p) sh =
     of_option (ConvTranspose2d cin cout k s p) sh
       (conv_shape (\<lambda>h. deconv_out h k s p) cin cout sh)"
| "layer_shape training (BatchNorm2d c) sh = batch_norm_shape training (BatchNorm2d c) c [4] sh"
| "layer_shape training (BatchNorm1d c) sh = batch_norm_shape training (BatchNorm1d c) c [2, 3] sh"
| "layer_shape training LeakyReLU sh = Inr sh"
| "layer_shape training Tanh sh = Inr sh"
| "layer_shape training Sigmoid sh = Inr sh"
| "layer_shape training Flatten sh = of_option Flatten sh (flatten_shape sh)"
| "layer_shape training (Linear fin fout) sh =
     of_option (Linear fin fout) sh (linear_shape fin fout sh)"

text \<open>
  The elements of the output: the activations act on each element, flattening keeps the
  elements in their order, and the affine layers compute what their weights say.
\<close>

fun layer_elems :: "weights \<Rightarrow> layer \<Rightarrow> tensor \<Rightarrow> nat \<Rightarrow> scalar" where
  "layer_elems w LeakyReLU x = (\<lambda>i. leaky_relu (elems x i))"
| "layer_elems w Tanh x = (\<lambda>i. tanh_scalar (elems x i))"
| "layer_elems w Sigmoid x = (\<lambda>i. sigmoid (elems x i))"
| "layer_elems w Flatten x = elems x"
| "layer_elems w l x = w l x"

definition layer_forward :: "bool \<Rightarrow> weights \<Rightarrow> layer \<Rightarrow> tensor \<Rightarrow> error + tensor" where
  "layer_forward training w l x =
     (case layer_shape training l (shape x) of
        Inl e \<Rightarrow> Inl e
      | Inr s \<Rightarrow> Inr \<lparr>shape = s, elems = layer_elems w l x\<rparr>)"

text \<open>\<^verbatim>\<open>nn.Sequential\<close>: the layers in the order given, stopping at the first error.\<close>

fun Sequential_forward :: "bool \<Rightarrow> weights \<Rightarrow> layer list \<Rightarrow> tensor \<Rightarrow> error + tensor" where
  "Sequential_forward training w [] x = Inr x"
| "Sequential_forward training w (l # ls) x =
     (case layer_forward training w l x of
        Inl e \<Rightarrow> Inl e
      | Inr y \<Rightarrow> Sequential_forward training w ls y)"

text \<open>\<^verbatim>\<open>x.size(d)\<close> and \<^verbatim>\<open>x.view(s)\<close> of a contiguous tensor.\<close>

definition size_dim :: "tensor \<Rightarrow> nat \<Rightarrow> error + nat" where
  "size_dim x d = (if d < length (shape x) then Inr (shape x ! d) else Inl (SizeOutOfRange (shape x) d))"

definition view :: "tensor \<Rightarrow> nat list \<Rightarrow> error + tensor" where
  "view x s =
     (if prod_list (shape x) = prod_list s then Inr (x\<lparr>shape := s\<rparr>)
      else Inl (ViewInvalid (shape x) s))"

section \<open>The notebook's modules\<close>

subsection \<open>ConvBlock\<close>

text \<open>
  \<^verbatim>\<open>ConvBlock(in_channels, out_channels, kernel_size, batch_norm=True)\<close>: the
  constructor builds \<^verbatim>\<open>self.model\<close>, one of two \<^verbatim>\<open>nn.Sequential\<close>; the branch
  with normalisation passes \<^verbatim>\<open>stride = 2\<close>, the other passes no stride.
\<close>

definition ConvBlock :: "nat \<Rightarrow> nat \<Rightarrow> nat \<Rightarrow> bool \<Rightarrow> layer list" where
  "ConvBlock in_channels out_channels kernel_size batch_norm =
     (if batch_norm then
        [Conv2d in_channels out_channels kernel_size 2 default_padding,
         BatchNorm2d out_channels,
         LeakyReLU]
      else
        [Conv2d in_channels out_channels kernel_size default_stride default_padding,
         LeakyReLU])"

definition ConvBlock_forward :: "bool \<Rightarrow> weights \<Rightarrow> layer list \<Rightarrow> tensor \<Rightarrow> error + tensor" where
  "ConvBlock_forward training w model x = Sequential_forward training w model x"

subsection \<open>Discriminator\<close>

text \<open>
  The discriminator's \<^verbatim>\<open>nn.Sequential\<close> holds four \<^verbatim>\<open>ConvBlock\<close> modules and
  three framework layers.
\<close>

datatype module = ConvBlock_module "layer list" | Layer_module layer

fun module_forward :: "bool \<Rightarrow> weights \<Rightarrow> module \<Rightarrow> tensor \<Rightarrow> error + tensor" where
  "module_forward training w (ConvBlock_module model) x = ConvBlock_forward training w model x"
| "module_forward training w (Layer_module l) x = layer_forward training w l x"

fun modules_forward :: "bool \<Rightarrow> weights \<Rightarrow> module list \<Rightarrow> tensor \<Rightarrow> error + tensor" where
  "modules_forward training w [] x = Inr x"
| "modules_forward training w (m # ms) x =
     (case module_forward training w m x of
        Inl e \<Rightarrow> Inl e
      | Inr y \<Rightarrow> modules_forward training w ms y)"

definition Discriminator :: "int \<Rightarrow> module list" where
  "Discriminator conv_dim =
     [ConvBlock_module (ConvBlock 3 32 4 False),
      ConvBlock_module (ConvBlock 32 64 3 True),
      ConvBlock_module (ConvBlock 64 128 4 True),
      ConvBlock_module (ConvBlock 128 256 4 True),
      Layer_module Flatten,
      Layer_module (Linear 1024 1),
      Layer_module Sigmoid]"

definition Discriminator_forward ::
  "bool \<Rightarrow> weights \<Rightarrow> module list \<Rightarrow> tensor \<Rightarrow> error + tensor" where
  "Discriminator_forward training w model x = modules_forward training w model x"

subsection \<open>DeconvBlock\<close>

text \<open>
  \<^verbatim>\<open>DeconvBlock(in_channels, out_channels, kernel_size, stride, padding,
  batch_norm=True)\<close>: both branches of the constructor pass \<^verbatim>\<open>stride = 2\<close> to
  \<^verbatim>\<open>nn.ConvTranspose2d\<close>; the argument \<^verbatim>\<open>stride\<close> is not read.
\<close>

definition DeconvBlock :: "nat \<Rightarrow> nat \<Rightarrow> nat \<Rightarrow> nat \<Rightarrow> nat \<Rightarrow> bool \<Rightarrow> layer list" where
  "DeconvBlock in_channels out_channels kernel_size stride padding batch_norm =
     (if batch_norm then
        [ConvTranspose2d in_channels out_channels kernel_size 2 padding,
         BatchNorm2d out_channels,
         LeakyReLU]
      else
        [ConvTranspose2d in_channels out_channels kernel_size 2 padding,
         Tanh])"

definition DeconvBlock_forward :: "bool \<Rightarrow> weights \<Rightarrow> layer list \<Rightarrow> tensor \<Rightarrow> error + tensor" where
  "DeconvBlock_forward training w model x = Sequential_forward training w model x"

subsection \<open>Generator\<close>

record generator =
  fc1 :: layer
  norm1 :: layer
  lrelu :: layer
  tconv1 :: "layer list"
  tconv2 :: "layer list"
  tconv3 :: "layer list"
  tconv4 :: "layer list"
  tconv5 :: "layer list"
  tconv6 :: "layer list"

definition Generator :: "nat \<Rightarrow> int \<Rightarrow> generator" where
  "Generator latent_dim conv_dim =
     \<lparr>fc1 = Linear latent_dim 8192,
      norm1 = BatchNorm1d 8192,
      lrelu = LeakyReLU,
      tconv1 = DeconvBlock 512 256 4 2 0 True,
      tconv2 = DeconvBlock 256 128 4 2 0 True,
      tconv3 = DeconvBlock 128 64 4 1 0 True,
      tconv4 = DeconvBlock 64 32 4 1 0 True,
      tconv5 = DeconvBlock 32 16 4 1 0 True,
      tconv6 = DeconvBlock 16 3 4 1 1 False\<rparr>"

text \<open>Sequencing of fallible steps: the first error ends the forward pass.\<close>

definition and_then :: "error + 'a \<Rightarrow> ('a \<Rightarrow> error + 'b) \<Rightarrow> error + 'b" where
  "and_then r f = (case r of Inl e \<Rightarrow> Inl e | Inr y \<Rightarrow> f y)"

text \<open>
  \<^verbatim>\<open>Generator.forward\<close> up to and including \<^verbatim>\<open>self.lrelu\<close>, then the reshape
  \<^verbatim>\<open>x.view(x.size(0), 512, 4, 4)\<close>, then the six blocks.
\<close>

definition Generator_head :: "bool \<Rightarrow> weights \<Rightarrow> generator \<Rightarrow> tensor \<Rightarrow> error + tensor" where
  "Generator_head training w g x =
     and_then (layer_forward training w (fc1 g) x) (\<lambda>x.
     and_then (layer_forward training w (norm1 g) x) (\<lambda>x.
     layer_forward training w (lrelu g) x))"

definition Generator_view :: "tensor \<Rightarrow> error + tensor" where
  "Generator_view x = and_then (size_dim x 0) (\<lambda>n. view x [n, 512, 4, 4])"

definition Generator_forward :: "bool \<Rightarrow> weights \<Rightarrow> generator \<Rightarrow> tensor \<Rightarrow> error + tensor" where
  "Generator_forward training w g x =
     and_then (Generator_head training w g x) (\<lambda>x.
     and_then (Generator_view x) (\<lambda>x.
     and_then (DeconvBlock_forward training w (tconv1 g) x) (\<lambda>x.
     and_then (DeconvBlock_forward training w (tconv2 g) x) (\<lambda>x.
     and_then (DeconvBlock_forward training w (tconv3 g) x) (\<lambda>x.
     and_then (DeconvBlock_forward training w (tconv4 g) x) (\<lambda>x.
     and_then (DeconvBlock_forward training w (tconv5 g) x) (\<lambda>x.
     DeconvBlock_forward training w (tconv6 g) x)))))))"

section \<open>Concrete inputs\<close>

text \<open>
  Weights under which every affine layer returns the constant \<open>c\<close>, and the tensor
  of shape \<open>s\<close> filled with \<open>c\<close> (\<^verbatim>\<open>torch.full\<close>).
\<close>

definition constant_weights :: "scalar \<Rightarrow> weights" where
  "constant_weights c l x i = c"

definition full :: "nat list \<Rightarrow> scalar \<Rightarrow> tensor" where
  "full s c = \<lparr>shape = s, elems = (\<lambda>i. c)\<rparr>"

text \<open>
  Weights that are zero with bias \<open>c\<close>: each output element is a sum of products
  \<open>0 * v\<close> over input elements \<open>v\<close>, plus \<open>c\<close>. On an input filled with one
  value \<open>v\<close> this is \<open>c\<close> when \<open>v\<close> is a number, and NaN when \<open>v\<close> is NaN or an
  infinity, since \<open>0 * v\<close> is NaN then.
\<close>

definition zero_weights_bias :: "real \<Rightarrow> weights" where
  "zero_weights_bias c l x i = (case elems x 0 of Finite v \<Rightarrow> Finite c | _ \<Rightarrow> NaN)"

text \<open>The shape a forward pass returns, or the error it raises.\<close>

definition result_shape :: "error + tensor \<Rightarrow> error + nat list" where
  "result_shape r = (case r of Inl e \<Rightarrow> Inl e | Inr y \<Rightarrow> Inr (shape y))"

section \<open>Forward passes of layers and blocks\<close>

lemma layer_forward_shape:
  "result_shape (layer_forward training w l x) = layer_shape training l (shape x)"
  by (simp add: layer_forward_def result_shape_def split: sum.splits)

lemma layer_forward_InrD:
  "layer_forward training w l x = Inr y \<Longrightarrow>
   layer_shape training l (shape x) = Inr (shape y) \<and> elems y = layer_elems w l x"
  by (auto simp add: layer_forward_def split: sum.splits)

lemma layer_forward_InrI:
  "layer_shape training l (shape x) = Inr s \<Longrightarrow>
   layer_forward training w l x = Inr \<lparr>shape = s, elems = layer_elems w l x\<rparr>"
  by (simp add: layer_forward_def)

lemma layer_forward_InlI:
  "layer_shape training l (shape x) = Inl e \<Longrightarrow> layer_forward training w l x = Inl e"
  by (simp add: layer_forward_def)

lemma batch_norm2d_shape:
  "1 < h * w \<Longrightarrow> batch_norm_shape training l c [4] [n, c, h, w] = Inr [n, c, h, w]"
  by (auto simp add: batch_norm_shape_def size_prods_def)

lemma ConvBlock_norm_forward:
  assumes "shape x = [n, cin, h, w]"
    and "conv_out h k 2 0 = Some h'" and "conv_out w k 2 0 = Some w'" and "1 < h' * w'"
  shows "\<exists>y. ConvBlock_forward training wt (ConvBlock cin cout k True) x = Inr y
           \<and> shape y = [n, cout, h', w']"
  using assms
  by (simp add: ConvBlock_forward_def ConvBlock_def layer_forward_def of_option_def
      default_padding_def batch_norm2d_shape)

lemma ConvBlock_plain_forward:
  assumes "shape x = [n, cin, h, w]"
    and "conv_out h k 1 0 = Some h'" and "conv_out w k 1 0 = Some w'"
  shows "\<exists>y. ConvBlock_forward training wt (ConvBlock cin cout k False) x = Inr y
           \<and> shape y = [n, cout, h', w']"
  using assms
  by (simp add: ConvBlock_forward_def ConvBlock_def layer_forward_def of_option_def
      default_padding_def default_stride_def)

lemma Discriminator_tail_forward:
  assumes "shape x = [n, 256, 2, 2]"
  shows "\<exists>y. modules_forward training wt
            [Layer_module Flatten, Layer_module (Linear 1024 1), Layer_module Sigmoid] x = Inr y
           \<and> shape y = [n, 1]"
  using assms
  by (auto simp add: layer_forward_def of_option_def flatten_shape_def linear_shape_def)

text \<open>
  Claim C2. For every batch size \<open>B\<close>, in either mode and under any weights, the
  discriminator's forward pass on an input of shape \<open>(B, 3, 32, 32)\<close> succeeds and
  returns a tensor of shape \<open>(B, 1)\<close>: the blocks give \<open>(B, 32, 29, 29)\<close>,
  \<open>(B, 64, 14, 14)\<close>, \<open>(B, 128, 6, 6)\<close>, \<open>(B, 256, 2, 2)\<close>, flattened to
  \<open>(B, 1024)\<close>.
\<close>

theorem Discriminator_output_shape:
  assumes "shape x = [B, 3, 32, 32]"
  shows "result_shape (Discriminator_forward training w (Discriminator conv_dim) x) = Inr [B, 1]"
proof -
  have "\<exists>y. ConvBlock_forward training w (ConvBlock 3 32 4 False) x = Inr y
          \<and> shape y = [B, 32, 29, 29]"
    by (rule ConvBlock_plain_forward [OF assms]) (simp_all add: conv_out_def)
  then obtain y1 where y1: "ConvBlock_forward training w (ConvBlock 3 32 4 False) x = Inr y1"
    and s1: "shape y1 = [B, 32, 29, 29]" by blast
  have "\<exists>y. ConvBlock_forward training w (ConvBlock 32 64 3 True) y1 = Inr y
          \<and> shape y = [B, 64, 14, 14]"
    by (rule ConvBlock_norm_forward [OF s1]) (simp_all add: conv_out_def)
  then obtain y2 where y2: "ConvBlock_forward training w (ConvBlock 32 64 3 True) y1 = Inr y2"
    and s2: "shape y2 = [B, 64, 14, 14]" by blast
  have "\<exists>y. ConvBlock_forward training w (ConvBlock 64 128 4 True) y2 = Inr y
          \<and> shape y = [B, 128, 6, 6]"
    by (rule ConvBlock_norm_forward [OF s2]) (simp_all add: conv_out_def)
  then obtain y3 where y3: "ConvBlock_forward training w (ConvBlock 64 128 4 True) y2 = Inr y3"
    and s3: "shape y3 = [B, 128, 6, 6]" by blast
  have "\<exists>y. ConvBlock_forward training w (ConvBlock 128 256 4 True) y3 = Inr y
          \<and> shape y = [B, 256, 2, 2]"
    by (rule ConvBlock_norm_forward [OF s3]) (simp_all add: conv_out_def)
  then obtain y4 where y4: "ConvBlock_forward training w (ConvBlock 128 256 4 True) y3 = Inr y4"
    and s4: "shape y4 = [B, 256, 2, 2]" by blast
  obtain y where y: "modules_forward training w
      [Layer_module Flatten, Layer_module (Linear 1024 1), Layer_module Sigmoid] y4 = Inr y"
    and s: "shape y = [B, 1]"
    using Discriminator_tail_forward [OF s4] by blast
  show ?thesis
    using y by (simp add: Discriminator_forward_def Discriminator_def y1 y2 y3 y4 s result_shape_def)
qed

theorem Discriminator_output_shape_witness:
  "shape (full [16, 3, 32, 32] (Finite 0)) = [16, 3, 32, 32] \<and>
   result_shape (Discriminator_forward True (constant_weights (Finite 3)) (Discriminator 64) (full [16, 3, 32, 32] (Finite 0))) = Inr [16, 1]"
  using Discriminator_output_shape [of "full [16, 3, 32, 32] (Finite 0)" 16 True "constant_weights (Finite 3)" 64]
  by (simp add: full_def)

section \<open>The generator\<close>

lemma and_then_InrD: "and_then r f = Inr y \<Longrightarrow> \<exists>z. r = Inr z \<and> f z = Inr y"
  by (cases r) (simp_all add: and_then_def)

lemma and_then_Inr [simp]: "and_then (Inr z) f = f z"
  by (simp add: and_then_def)

lemma and_then_Inl [simp]: "and_then (Inl e) f = Inl e"
  by (simp add: and_then_def)

lemma DeconvBlock_norm_forward:
  assumes "shape x = [n, cin, h, w]"
    and "deconv_out h k 2 p = Some h'" and "deconv_out w k 2 p = Some w'" and "1 < h' * w'"
  shows "\<exists>y. DeconvBlock_forward training wt (DeconvBlock cin cout k s p True) x = Inr y
           \<and> shape y = [n, cout, h', w']"
  using assms
  by (simp add: DeconvBlock_forward_def DeconvBlock_def layer_forward_def of_option_def
      batch_norm2d_shape)

lemma DeconvBlock_tanh_forward:
  assumes "shape x = [n, cin, h, w]"
    and "deconv_out h k 2 p = Some h'" and "deconv_out w k 2 p = Some w'"
  shows "\<exists>y. DeconvBlock_forward training wt (DeconvBlock cin cout k s p False) x = Inr y
           \<and> shape y = [n, cout, h', w']"
  using assms
  by (simp add: DeconvBlock_forward_def DeconvBlock_def layer_forward_def of_option_def)

lemma Generator_head_forward:
  assumes "shape x = [B, L]" and "training \<and> B = 1 \<Longrightarrow> False"
  shows "\<exists>y. Generator_head training w (Generator L c) x = Inr y \<and> shape y = [B, 8192]"
  using assms
  by (auto simp add: Generator_head_def Generator_def layer_forward_def of_option_def
      linear_shape_def batch_norm_shape_def size_prods_def)

lemma Generator_view_forward:
  assumes "shape x = [B, 8192]"
  shows "\<exists>y. Generator_view x = Inr y \<and> shape y = [B, 512, 4, 4]"
  using assms by (simp add: Generator_view_def size_dim_def view_def)

lemma Generator_forward_2d:
  assumes "shape x = [B, L]" and "training \<and> B = 1 \<Longrightarrow> False"
  shows "result_shape (Generator_forward training w (Generator L c) x) = Inr [B, 3, 380, 380]"
proof -
  let ?g = "Generator L c"
  obtain y0 where y0: "Generator_head training w ?g x = Inr y0" and s0: "shape y0 = [B, 8192]"
    using Generator_head_forward [OF assms] by blast
  obtain v where v: "Generator_view y0 = Inr v" and sv: "shape v = [B, 512, 4, 4]"
    using Generator_view_forward [OF s0] by blast
  have "\<exists>y. DeconvBlock_forward training w (DeconvBlock 512 256 4 2 0 True) v = Inr y
          \<and> shape y = [B, 256, 10, 10]"
    by (rule DeconvBlock_norm_forward [OF sv]) (simp_all add: deconv_out_def)
  then obtain y1 where y1: "DeconvBlock_forward training w (tconv1 ?g) v = Inr y1"
    and s1: "shape y1 = [B, 256, 10, 10]" by (auto simp add: Generator_def)
  have "\<exists>y. DeconvBlock_forward training w (DeconvBlock 256 128 4 2 0 True) y1 = Inr y
          \<and> shape y = [B, 128, 22, 22]"
    by (rule DeconvBlock_norm_forward [OF s1]) (simp_all add: deconv_out_def)
  then obtain y2 where y2: "DeconvBlock_forward training w (tconv2 ?g) y1 = Inr y2"
    and s2: "shape y2 = [B, 128, 22, 22]" by (auto simp add: Generator_def)
  have "\<exists>y. DeconvBlock_forward training w (DeconvBlock 128 64 4 1 0 True) y2 = Inr y
          \<and> shape y = [B, 64, 46, 46]"
    by (rule DeconvBlock_norm_forward [OF s2]) (simp_all add: deconv_out_def)
  then obtain y3 where y3: "DeconvBlock_forward training w (tconv3 ?g) y2 = Inr y3"
    and s3: "shape y3 = [B, 64, 46, 46]" by (auto simp add: Generator_def)
  have "\<exists>y. DeconvBlock_forward training w (DeconvBlock 64 32 4 1 0 True) y3 = Inr y
          \<and> shape y = [B, 32, 94, 94]"
    by (rule DeconvBlock_norm_forward [OF s3]) (simp_all add: deconv_out_def)
  then obtain y4 where y4: "DeconvBlock_forward training w (tconv4 ?g) y3 = Inr y4"
    and s4: "shape y4 = [B, 32, 94, 94]" by (auto simp add: Generator_def)
  have "\<exists>y. DeconvBlock_forward training w (DeconvBlock 32 16 4 1 0 True) y4 = Inr y
          \<and> shape y = [B, 16, 190, 190]"
    by (rule DeconvBlock_norm_forward [OF s4]) (simp_all add: deconv_out_def)
  then obtain y5 where y5: "DeconvBlock_forward training w (tconv5 ?g) y4 = Inr y5"
    and s5: "shape y5 = [B, 16, 190, 190]" by (auto simp add: Generator_def)
  have "\<exists>y. DeconvBlock_forward training w (DeconvBlock 16 3 4 1 1 False) y5 = Inr y
          \<and> shape y = [B, 3, 380, 380]"
    by (rule DeconvBlock_tanh_forward [OF s5]) (simp_all add: deconv_out_def)
  then obtain y6 where y6: "DeconvBlock_forward training w (tconv6 ?g) y5 = Inr y6"
    and s6: "shape y6 = [B, 3, 380, 380]" by (auto simp add: Generator_def)
  show ?thesis
    by (simp add: Generator_forward_def y0 v y1 y2 y3 y4 y5 y6 s6 result_shape_def)
qed

text \<open>
  The strides that \<^verbatim>\<open>Generator.__init__\<close> passes to its six blocks
  (2, 2, 1, 1, 1, 1, the last block with padding 1) would take the extent 4 of the reshaped
  tensor to 32, had the blocks used them.
\<close>

lemma passed_strides_reach_32:
  "deconv_out 4 4 2 0 = Some 10 \<and> deconv_out 10 4 2 0 = Some 22 \<and>
   deconv_out 22 4 1 0 = Some 25 \<and> deconv_out 25 4 1 0 = Some 28 \<and>
   deconv_out 28 4 1 0 = Some 31 \<and> deconv_out 31 4 1 1 = Some 32"
  by (simp add: deconv_out_def)

text \<open>
  Claim C1 says that \<^verbatim>\<open>Generator(128)\<close> returns shape \<open>(B, 3, 32, 32)\<close> on
  a latent tensor of shape \<open>(B, 128)\<close> or \<open>(B, 128, 1, 1)\<close>. The code does
  neither: on the batch of 16 that the notebook's test uses, a latent tensor of shape
  \<open>(16, 128)\<close> comes out with shape \<open>(16, 3, 380, 380)\<close>, every block doubling
  the extent (4, 10, 22, 46, 94, 190, 380), and the latent tensor of shape
  \<open>(16, 128, 1, 1)\<close> is refused by the first linear layer.
\<close>

theorem Generator_output_shape_380:
  "result_shape (Generator_forward True w (Generator 128 conv_dim) \<lparr>shape = [16, 128], elems = e\<rparr>)
     = Inr [16, 3, 380, 380]
   \<and> result_shape (Generator_forward True w (Generator 128 conv_dim)
        \<lparr>shape = [16, 128, 1, 1], elems = e\<rparr>)
     = Inl (ShapeMismatch (Linear 128 8192) [16, 128, 1, 1])"
proof
  show "result_shape (Generator_forward True w (Generator 128 conv_dim)
      \<lparr>shape = [16, 128], elems = e\<rparr>) = Inr [16, 3, 380, 380]"
    by (rule Generator_forward_2d) simp_all
  show "result_shape (Generator_forward True w (Generator 128 conv_dim)
        \<lparr>shape = [16, 128, 1, 1], elems = e\<rparr>)
     = Inl (ShapeMismatch (Linear 128 8192) [16, 128, 1, 1])"
    by (simp add: Generator_forward_def Generator_head_def Generator_def layer_forward_def
        of_option_def linear_shape_def result_shape_def)
qed

text \<open>
  Claim C6. For every batch size \<open>B\<close>, in either mode and under any weights, the
  forward pass of \<^verbatim>\<open>Generator(128)\<close> on a latent tensor of shape
  \<open>(B, 128, 1, 1)\<close> ends with the shape error raised by the first linear layer
  \<^verbatim>\<open>fc1\<close> (its last dimension is 1, not 128); nothing in the module catches it, so
  the error is the result of the forward pass.
\<close>

theorem Generator_4d_latent_raises:
  assumes "shape x = [B, 128, 1, 1]"
  shows "Generator_forward training w (Generator 128 conv_dim) x
           = Inl (ShapeMismatch (Linear 128 8192) [B, 128, 1, 1])"
proof -
  have "layer_shape training (Linear 128 8192) (shape x)
          = Inl (ShapeMismatch (Linear 128 8192) [B, 128, 1, 1])"
    by (simp add: assms of_option_def linear_shape_def)
  then have "layer_forward training w (fc1 (Generator 128 conv_dim)) x
          = Inl (ShapeMismatch (Linear 128 8192) [B, 128, 1, 1])"
    by (simp add: Generator_def layer_forward_InlI)
  then show ?thesis
    by (simp add: Generator_forward_def Generator_head_def)
qed

theorem Generator_4d_latent_raises_witness:
  "shape (full [16, 128, 1, 1] (Finite 0)) = [16, 128, 1, 1] \<and>
   Generator_forward True (constant_weights (Finite 3)) (Generator 128 32) (full [16, 128, 1, 1] (Finite 0))
     = Inl (ShapeMismatch (Linear 128 8192) [16, 128, 1, 1])"
  using Generator_4d_latent_raises [of "full [16, 128, 1, 1] (Finite 0)" 16 True "constant_weights (Finite 3)" 32]
  by (simp add: full_def)

section \<open>Ranges of the outputs\<close>

lemma tanh_scalar_range: "is_nan (tanh_scalar v) \<or> in_range (- 1) 1 (tanh_scalar v)"
  by (cases v) (simp_all add: less_imp_le tanh_real_gt_neg1 tanh_real_lt_1)

lemma logistic_bounds: "0 < logistic v \<and> logistic v < 1"
proof -
  have "0 < exp (- v)" by simp
  then show ?thesis by (simp add: logistic_def field_simps add_pos_pos)
qed

lemma sigmoid_range: "is_nan (sigmoid v) \<or> in_range 0 1 (sigmoid v)"
  using logistic_bounds [of "case v of Finite r \<Rightarrow> r | _ \<Rightarrow> 0"]
  by (cases v) (simp_all add: less_imp_le)

lemma Sequential_forward_last:
  "Sequential_forward training w (ls @ [l]) x = Inr y \<Longrightarrow>
   \<exists>z. Sequential_forward training w ls x = Inr z \<and> layer_forward training w l z = Inr y"
proof (induction ls arbitrary: x)
  case Nil
  then show ?case by (simp split: sum.splits)
next
  case (Cons a ls)
  then show ?case by (cases "layer_forward training w a x") auto
qed

lemma modules_forward_last:
  "modules_forward training w (ms @ [m]) x = Inr y \<Longrightarrow>
   \<exists>z. modules_forward training w ms x = Inr z \<and> module_forward training w m z = Inr y"
proof (induction ms arbitrary: x)
  case Nil
  then show ?case by (simp split: sum.splits)
next
  case (Cons a ms)
  then show ?case by (cases "module_forward training w a x") auto
qed

lemma DeconvBlock_final_tanh:
  assumes "DeconvBlock_forward training w (DeconvBlock cin cout k s p False) x = Inr y"
  shows "\<exists>v. elems y = (\<lambda>i. tanh_scalar (v i))"
proof -
  have "Sequential_forward training w ([ConvTranspose2d cin cout k 2 p] @ [Tanh]) x = Inr y"
    using assms by (simp add: DeconvBlock_forward_def DeconvBlock_def)
  then obtain z where "layer_forward training w Tanh z = Inr y"
    using Sequential_forward_last by blast
  then have "elems y = (\<lambda>i. tanh_scalar (elems z i))"
    by (simp add: layer_forward_InrD)
  then show ?thesis by (rule exI [of _ "elems z"])
qed

text \<open>
  Claim C3 says that every element of a successful output of the generator lies in
  \<open>[-1, 1]\<close>. As stated this fails: on a latent tensor of shape \<open>(2, 128)\<close> filled with
  NaN the forward pass succeeds, no layer raises on NaN, and the output is filled with NaN,
  which lies in no interval. (The weights here are zero with bias 3; every weight gives
  the same output on this input, a sum with a NaN term being NaN.)
\<close>

theorem Generator_output_nan:
  "Generator_forward True (zero_weights_bias 3) (Generator 128 32) (full [2, 128] NaN)
     = Inr (full [2, 3, 380, 380] NaN)
   \<and> 0 < numel (full [2, 3, 380, 380] NaN)
   \<and> \<not> in_range (- 1) 1 (elems (full [2, 3, 380, 380] NaN) 0)"
  by (simp add: Generator_forward_def Generator_head_def Generator_view_def Generator_def
      DeconvBlock_forward_def DeconvBlock_def layer_forward_def of_option_def linear_shape_def
      batch_norm_shape_def size_prods_def size_dim_def view_def deconv_out_def full_def
      zero_weights_bias_def numel_def)

text \<open>
  Claim C3, amended. Whenever the generator's forward pass succeeds, in either mode and
  under any weights, every element of the output is NaN or lies in \<open>[-1, 1]\<close>: the last
  layer of the last block is \<^verbatim>\<open>Tanh\<close>, which takes a number or an infinity into
  \<open>[-1, 1]\<close> and NaN to NaN.
\<close>

theorem Generator_output_range:
  assumes "Generator_forward training w (Generator latent_dim conv_dim) x = Inr y"
    and "i < numel y"
  shows "is_nan (elems y i) \<or> in_range (- 1) 1 (elems y i)"
proof -
  let ?g = "Generator latent_dim conv_dim"
  from assms(1) obtain x6
    where "DeconvBlock_forward training w (tconv6 ?g) x6 = Inr y"
    unfolding Generator_forward_def by (blast dest!: and_then_InrD)
  then have "DeconvBlock_forward training w (DeconvBlock 16 3 4 1 1 False) x6 = Inr y"
    by (simp add: Generator_def)
  then obtain v where "elems y = (\<lambda>i. tanh_scalar (v i))"
    using DeconvBlock_final_tanh by blast
  then have "elems y i = tanh_scalar (v i)" by simp
  with tanh_scalar_range [of "v i"] show ?thesis by simp
qed

lemma Generator_forward_constant:
  "Generator_forward True (zero_weights_bias 3) (Generator 128 32) (full [2, 128] (Finite 0))
     = Inr (full [2, 3, 380, 380] (Finite (tanh 3)))"
  by (simp add: Generator_forward_def Generator_head_def Generator_view_def Generator_def
      DeconvBlock_forward_def DeconvBlock_def layer_forward_def of_option_def linear_shape_def
      batch_norm_shape_def size_prods_def size_dim_def view_def deconv_out_def full_def
      zero_weights_bias_def)

theorem Generator_output_range_witness:
  "Generator_forward True (zero_weights_bias 3) (Generator 128 32) (full [2, 128] (Finite 0))
     = Inr (full [2, 3, 380, 380] (Finite (tanh 3)))
   \<and> 866399 < numel (full [2, 3, 380, 380] (Finite (tanh 3)))
   \<and> in_range (- 1) 1 (elems (full [2, 3, 380, 380] (Finite (tanh 3))) 866399)"
proof -
  have n: "866399 < numel (full [2, 3, 380, 380] (Finite (tanh 3)))"
    by (simp add: numel_def full_def)
  from Generator_output_range [OF Generator_forward_constant n] Generator_forward_constant n
  show ?thesis by (simp add: full_def)
qed

text \<open>
  Claim C4 says that every element of a successful output of the discriminator lies in
  \<open>[0, 1]\<close>. As stated this fails: on an image tensor of shape \<open>(2, 3, 32, 32)\<close> filled
  with NaN the forward pass succeeds and both elements of the output are NaN. (The weights
  here are zero with bias 3; every weight gives the same output on this input.)
\<close>

theorem Discriminator_output_nan:
  "Discriminator_forward True (zero_weights_bias 3) (Discriminator 64)
      (full [2, 3, 32, 32] NaN)
     = Inr (full [2, 1] NaN)
   \<and> 0 < numel (full [2, 1] NaN)
   \<and> \<not> in_range 0 1 (elems (full [2, 1] NaN) 0)"
  by (simp add: Discriminator_forward_def Discriminator_def ConvBlock_forward_def ConvBlock_def
      layer_forward_def of_option_def linear_shape_def flatten_shape_def default_stride_def
      default_padding_def batch_norm_shape_def size_prods_def conv_out_def full_def
      zero_weights_bias_def numel_def)

text \<open>
  Claim C4, amended. Whenever the discriminator's forward pass succeeds, in either mode
  and under any weights, every element of the output is NaN or lies in \<open>[0, 1]\<close>: the
  last layer is \<^verbatim>\<open>Sigmoid\<close>, which takes a number or an infinity into \<open>[0, 1]\<close>
  and NaN to NaN.
\<close>

theorem Discriminator_output_range:
  assumes "Discriminator_forward training w (Discriminator conv_dim) x = Inr y"
    and "i < numel y"
  shows "is_nan (elems y i) \<or> in_range 0 1 (elems y i)"
proof -
  have "Discriminator conv_dim = butlast (Discriminator conv_dim) @ [Layer_module Sigmoid]"
    by (simp add: Discriminator_def)
  with assms(1) have "modules_forward training w
      (butlast (Discriminator conv_dim) @ [Layer_module Sigmoid]) x = Inr y"
    by (simp add: Discriminator_forward_def)
  then obtain z where "module_forward training w (Layer_module Sigmoid) z = Inr y"
    using modules_forward_last by blast
  then have "elems y = layer_elems w Sigmoid z"
    by (simp add: layer_forward_InrD)
  then have "elems y i = sigmoid (elems z i)" by simp
  with sigmoid_range [of "elems z i"] show ?thesis by simp
qed

lemma Discriminator_forward_constant:
  "Discriminator_forward True (zero_weights_bias 3) (Discriminator 64)
      (full [2, 3, 32, 32] (Finite 0))
     = Inr (full [2, 1] (Finite (logistic 3)))"
  by (simp add: Discriminator_forward_def Discriminator_def ConvBlock_forward_def ConvBlock_def
      layer_forward_def of_option_def linear_shape_def flatten_shape_def default_stride_def
      default_padding_def batch_norm_shape_def size_prods_def conv_out_def full_def
      zero_weights_bias_def)

theorem Discriminator_output_range_witness:
  "Discriminator_forward True (zero_weights_bias 3) (Discriminator 64)
      (full [2, 3, 32, 32] (Finite 0))
     = Inr (full [2, 1] (Finite (logistic 3)))
   \<and> 1 < numel (full [2, 1] (Finite (logistic 3)))
   \<and> in_range 0 1 (elems (full [2, 1] (Finite (logistic 3))) 1)"
proof -
  have n: "1 < numel (full [2, 1] (Finite (logistic 3)))"
    by (simp add: numel_def full_def)
  from Discriminator_output_range [OF Discriminator_forward_constant n]
    Discriminator_forward_constant n
  show ?thesis by (simp add: full_def)
qed

section \<open>Structure of the blocks and the reshape\<close>

text \<open>
  Claim C5 says that a \<^verbatim>\<open>DeconvBlock\<close> uses the stride passed to its
  constructor. The code does not: \<^verbatim>\<open>DeconvBlock(128, 64, 4, 1, 0, True)\<close>, the
  third block of the generator, holds a transpose convolution of stride 2, so that an input
  of shape \<open>(16, 128, 22, 22)\<close> comes out with extent 46, where a transpose convolution
  of stride 1 gives 25. No value of the argument \<^verbatim>\<open>stride\<close> changes the block.
\<close>

theorem DeconvBlock_ignores_stride:
  "DeconvBlock 128 64 4 1 0 True = [ConvTranspose2d 128 64 4 2 0, BatchNorm2d 64, LeakyReLU]
   \<and> result_shape (DeconvBlock_forward training w (DeconvBlock 128 64 4 1 0 True)
         \<lparr>shape = [16, 128, 22, 22], elems = e\<rparr>) = Inr [16, 64, 46, 46]
   \<and> layer_shape training (ConvTranspose2d 128 64 4 1 0) [16, 128, 22, 22]
       = Inr [16, 64, 25, 25]
   \<and> DeconvBlock cin cout k s p bn = DeconvBlock cin cout k 2 p bn"
  by (simp add: DeconvBlock_def DeconvBlock_forward_def layer_forward_def of_option_def
      deconv_out_def batch_norm_shape_def size_prods_def result_shape_def)

text \<open>
  Claim C7. Every \<^verbatim>\<open>ConvBlock\<close> and every \<^verbatim>\<open>DeconvBlock\<close> is the
  sequence of a (transpose) convolution, then a batch normalisation exactly when
  \<^verbatim>\<open>batch_norm\<close> is true, then an activation; its forward pass applies these
  layers in this order, stopping at the first error.
\<close>

theorem block_layer_order:
  "ConvBlock cin cout k bn
     = Conv2d cin cout k (if bn then 2 else default_stride) default_padding
       # (if bn then [BatchNorm2d cout] else []) @ [LeakyReLU]
   \<and> DeconvBlock cin cout k s p bn
     = ConvTranspose2d cin cout k 2 p
       # (if bn then [BatchNorm2d cout] else []) @ [if bn then LeakyReLU else Tanh]
   \<and> ConvBlock_forward training w (ConvBlock cin cout k bn) x
     = and_then (layer_forward training w
          (Conv2d cin cout k (if bn then 2 else default_stride) default_padding) x)
       (\<lambda>x. and_then (if bn then layer_forward training w (BatchNorm2d cout) x else Inr x)
       (\<lambda>x. layer_forward training w LeakyReLU x))
   \<and> DeconvBlock_forward training w (DeconvBlock cin cout k s p bn) x
     = and_then (layer_forward training w (ConvTranspose2d cin cout k 2 p) x)
       (\<lambda>x. and_then (if bn then layer_forward training w (BatchNorm2d cout) x else Inr x)
       (\<lambda>x. layer_forward training w (if bn then LeakyReLU else Tanh) x))"
  by (simp add: ConvBlock_def DeconvBlock_def ConvBlock_forward_def DeconvBlock_forward_def
      and_then_def split: sum.splits)

text \<open>
  Claim C8. The argument \<^verbatim>\<open>conv_dim\<close> has no influence: two discriminators, or
  two generators of the same latent dimension, built with different values of it are the
  same stack of layers, and under the same weights their forward passes agree on every
  input.
\<close>

theorem conv_dim_has_no_influence:
  "Discriminator c1 = Discriminator c2
   \<and> Discriminator_forward training w (Discriminator c1) x
       = Discriminator_forward training w (Discriminator c2) x
   \<and> Generator L c1 = Generator L c2
   \<and> Generator_forward training w (Generator L c1) z
       = Generator_forward training w (Generator L c2) z"
  by (simp add: Discriminator_def Generator_def)

text \<open>
  Claim C9 says that the reshape \<^verbatim>\<open>x.view(x.size(0), 512, 4, 4)\<close> never fails
  for an input that passes \<^verbatim>\<open>fc1\<close>. As stated this fails: a latent tensor of
  shape \<open>(1, 8192, 128)\<close> passes \<^verbatim>\<open>fc1\<close> (giving \<open>(1, 8192, 8192)\<close>),
  then \<^verbatim>\<open>norm1\<close> and \<^verbatim>\<open>lrelu\<close>, and the reshape refuses its
  67108864 elements.
\<close>

theorem view_fails_on_3d_input:
  "result_shape (layer_forward True (constant_weights (Finite 3)) (fc1 (Generator 128 32))
      (full [1, 8192, 128] (Finite 0))) = Inr [1, 8192, 8192]
   \<and> result_shape (Generator_head True (constant_weights (Finite 3)) (Generator 128 32)
      (full [1, 8192, 128] (Finite 0))) = Inr [1, 8192, 8192]
   \<and> Generator_forward True (constant_weights (Finite 3)) (Generator 128 32) (full [1, 8192, 128] (Finite 0))
      = Inl (ViewInvalid [1, 8192, 8192] [1, 512, 4, 4])"
  by (simp add: Generator_forward_def Generator_head_def Generator_view_def Generator_def
      layer_forward_def of_option_def linear_shape_def batch_norm_shape_def size_prods_def
      size_dim_def view_def full_def result_shape_def)

text \<open>
  Claim C9, amended. For every latent dimension, in either mode and under any weights: for
  a two-dimensional input that passes \<^verbatim>\<open>fc1\<close>, \<^verbatim>\<open>norm1\<close> and
  \<^verbatim>\<open>lrelu\<close>, the input has shape \<open>(B, latent_dim)\<close>, these layers give
  exactly 8192 = 512 * 4 * 4 features per batch element, and the reshape succeeds with shape
  \<open>(B, 512, 4, 4)\<close>.
\<close>

theorem view_succeeds_on_2d_input:
  assumes "length (shape x) = 2"
    and "Generator_head training w (Generator latent_dim conv_dim) x = Inr y"
  shows "shape x = [hd (shape x), latent_dim] \<and> shape y = [hd (shape x), 8192]
     \<and> result_shape (Generator_view y) = Inr [hd (shape x), 512, 4, 4]"
proof -
  obtain B L where sx: "shape x = [B, L]"
    using assms(1) by (cases "shape x"; cases "tl (shape x)") auto
  let ?g = "Generator latent_dim conv_dim"
  from assms(2) obtain x1 x2 where
    x1: "layer_forward training w (fc1 ?g) x = Inr x1" and
    x2: "layer_forward training w (norm1 ?g) x1 = Inr x2" and
    y: "layer_forward training w (lrelu ?g) x2 = Inr y"
    unfolding Generator_head_def by (blast dest!: and_then_InrD)
  from x1 have L: "L = latent_dim" and s1: "shape x1 = [B, 8192]"
    by (auto simp add: Generator_def sx of_option_def linear_shape_def
        dest!: layer_forward_InrD split: if_splits)
  from x2 have s2: "shape x2 = [B, 8192]"
    by (auto simp add: Generator_def s1 batch_norm_shape_def
        dest!: layer_forward_InrD split: if_splits)
  from y have s3: "shape y = [B, 8192]"
    by (auto simp add: Generator_def s2 dest!: layer_forward_InrD)
  show ?thesis
    by (simp add: sx L s3 Generator_view_def size_dim_def view_def result_shape_def)
qed

lemma Generator_head_constant:
  "Generator_head True (constant_weights (Finite 3)) (Generator 128 32) (full [16, 128] (Finite 0))
     = Inr (full [16, 8192] (Finite 3))"
  by (simp add: Generator_head_def Generator_def layer_forward_def of_option_def
      linear_shape_def batch_norm_shape_def size_prods_def full_def constant_weights_def)

theorem view_succeeds_on_2d_input_witness:
  "length (shape (full [16, 128] (Finite 0))) = 2
   \<and> Generator_head True (constant_weights (Finite 3)) (Generator 128 32) (full [16, 128] (Finite 0))
       = Inr (full [16, 8192] (Finite 3))
   \<and> shape (full [16, 8192] (Finite 3)) = [16, 8192]
   \<and> result_shape (Generator_view (full [16, 8192] (Finite 3))) = Inr [16, 512, 4, 4]"
proof -
  have l: "length (shape (full [16, 128] (Finite 0))) = 2" by (simp add: full_def)
  from view_succeeds_on_2d_input [OF l Generator_head_constant] l Generator_head_constant
  show ?thesis by (simp add: full_def)
qed

text \<open>
  Claim C10. The stride of a \<^verbatim>\<open>ConvBlock\<close>'s convolution depends on the flag
  \<^verbatim>\<open>batch_norm\<close> alone: 2 when it is true, the framework's default 1 when it is
  false. The first block of the discriminator is built without normalisation, so it has
  stride 1 and takes the extent 32 to 29 = 32 - 4 + 1.
\<close>

theorem ConvBlock_stride_from_batch_norm:
  "hd (ConvBlock cin cout k bn) = Conv2d cin cout k (if bn then 2 else 1) 0
   \<and> default_stride = 1
   \<and> hd (Discriminator conv_dim) = ConvBlock_module [Conv2d 3 32 4 1 0, LeakyReLU]
   \<and> result_shape (module_forward training w (hd (Discriminator conv_dim))
        \<lparr>shape = [B, 3, 32, 32], elems = e\<rparr>) = Inr [B, 32, 29, 29]"
  by (simp add: ConvBlock_def Discriminator_def ConvBlock_forward_def default_stride_def
      default_padding_def layer_forward_def of_option_def conv_out_def result_shape_def)

end
